theory Spec2Isabelle
  imports Complex_Main "HOL-Library.AList"
begin

section \<open>JavaScript values\<close>

text \<open>
  The request body is the object that the JSON body parser produced, and the documents of
  the store hold values of the same kind. A number carries the value the parser read; the
  handlers only ever look at whether it is zero. \<open>JUndefined\<close> is what reading an
  absent property gives.
\<close>

datatype jsval =
    JUndefined
  | JNull
  | JBool bool
  | JNum rat
  | JStr string
  | JArray "jsval list"
  | JObject "(string \<times> jsval) list"

type_synonym object = "(string \<times> jsval) list"

text \<open>Property access \<open>o.k\<close>.\<close>

definition get :: "object \<Rightarrow> string \<Rightarrow> jsval" where
  "get ob k = (case map_of ob k of None \<Rightarrow> JUndefined | Some v \<Rightarrow> v)"

text \<open>JavaScript's truthiness, as \<open>if (x)\<close>, \<open>!x\<close> and \<open>x && y\<close> read it.\<close>

fun truthy :: "jsval \<Rightarrow> bool" where
  "truthy JUndefined = False"
| "truthy JNull = False"
| "truthy (JBool b) = b"
| "truthy (JNum n) = (n \<noteq> 0)"
| "truthy (JStr s) = (s \<noteq> [])"
| "truthy (JArray xs) = True"
| "truthy (JObject ob) = True"

definition falsy :: "jsval \<Rightarrow> bool" where
  "falsy v = (\<not> truthy v)"

text \<open>
  Strict equality \<open>a === b\<close> of a value of the request body with a value of the request:
  primitives compare by value, and two objects or arrays that come from different places are
  different references.
\<close>

fun strict_eq :: "jsval \<Rightarrow> jsval \<Rightarrow> bool" where
  "strict_eq JUndefined JUndefined = True"
| "strict_eq JNull JNull = True"
| "strict_eq (JBool a) (JBool b) = (a = b)"
| "strict_eq (JNum a) (JNum b) = (a = b)"
| "strict_eq (JStr a) (JStr b) = (a = b)"
| "strict_eq a b = False"

section \<open>Identifiers\<close>

definition is_hex_digit :: "char \<Rightarrow> bool" where
  "is_hex_digit c = (c \<in> set ''0123456789abcdefABCDEF'')"

text \<open>The test \<open>/^[0-9a-fA-F]{24}$/.test(s)\<close> of the order routes.\<close>

definition is_hex24 :: "string \<Rightarrow> bool" where
  "is_hex24 s = (length s = 24 \<and> list_all is_hex_digit s)"

definition lower_hex :: "char \<Rightarrow> char" where
  "lower_hex c =
     (if c = CHR ''A'' then CHR ''a'' else if c = CHR ''B'' then CHR ''b''
      else if c = CHR ''C'' then CHR ''c'' else if c = CHR ''D'' then CHR ''d''
      else if c = CHR ''E'' then CHR ''e'' else if c = CHR ''F'' then CHR ''f'' else c)"

text \<open>
  A string is the sequence of the bytes of its UTF-8 encoding. A JavaScript string of
  length 12 that encodes to 12 bytes is then a string of 12 bytes that are all ASCII.
\<close>

definition is_ascii :: "char \<Rightarrow> bool" where
  "is_ascii c = ((of_char c :: nat) < 128)"

text \<open>The two lower-case hexadecimal digits of a byte.\<close>

definition hex_of_byte :: "char \<Rightarrow> string" where
  "hex_of_byte c =
     [''0123456789abcdef'' ! ((of_char c :: nat) div 16),
      ''0123456789abcdef'' ! ((of_char c :: nat) mod 16)]"

text \<open>
  \<open>new ObjectId(s)\<close> of the database driver, for a string \<open>s\<close>, in the releases of
  the driver whose \<open>findOneAndUpdate\<close> and \<open>findOneAndDelete\<close> answer an object with
  a \<open>value\<close>, as the handlers read it (releases up to 5). An identifier is twelve
  bytes, written here as the lower-case hexadecimal string that the driver prints for
  them. The constructor first takes a string of length 12 as the twelve bytes themselves,
  then a string of 24 hexadecimal digits as the bytes the digits spell; for any other
  string it throws (\<open>None\<close>).
\<close>

definition ObjectId :: "string \<Rightarrow> string option" where
  "ObjectId s =
     (if length s = 12 \<and> list_all is_ascii s then Some (concat (map hex_of_byte s))
      else if is_hex24 s then Some (map lower_hex s)
      else None)"

text \<open>
  \<open>uid === Number\<close> in the route that reads a user: \<open>uid\<close> is a path parameter, a
  string, and \<open>Number\<close> is the global constructor function, so the comparison is false
  for every \<open>uid\<close>.
\<close>

definition is_Number :: "string \<Rightarrow> bool" where
  "is_Number uid = False"

section \<open>The store\<close>

text \<open>
  A document is its \<open>_id\<close> and its other fields. A collection keeps its documents in
  insertion order, which is the order in which a query without a sort meets them.
\<close>

record document =
  doc_id :: string
  doc_fields :: object

record store =
  users :: "document list"
  orders :: "document list"

datatype filter = ByField string jsval | ById string

text \<open>
  The match of a query \<open>{k: v}\<close> against the value \<open>f\<close> a document has at \<open>k\<close>: equal
  values, an array that holds the value, or a query for \<open>null\<close> against an absent field.
  A query value that is an object is compared as a value (the query operators of the
  database are not modelled).
\<close>

definition field_matches :: "jsval \<Rightarrow> jsval \<Rightarrow> bool" where
  "field_matches v f =
     (f = v \<or> (case f of JArray xs \<Rightarrow> v \<in> set xs | _ \<Rightarrow> False) \<or> (v = JNull \<and> f = JUndefined))"

fun matches :: "filter \<Rightarrow> document \<Rightarrow> bool" where
  "matches (ById i) d = (doc_id d = i)"
| "matches (ByField k v) d = field_matches v (get (doc_fields d) k)"

text \<open>\<open>collection.findOne(filter)\<close>.\<close>

definition findOne :: "filter \<Rightarrow> document list \<Rightarrow> document option" where
  "findOne q ds = find (matches q) ds"

text \<open>
  \<open>collection.insertOne(doc)\<close>; the driver draws the new document's \<open>_id\<close>, which the
  model takes as the parameter \<open>new_id\<close>.
\<close>

definition insertOne :: "string \<Rightarrow> object \<Rightarrow> document list \<Rightarrow> document list" where
  "insertOne new_id ob ds = ds @ [\<lparr>doc_id = new_id, doc_fields = ob\<rparr>]"

text \<open>
  The update \<open>{$set: body}\<close>: every property of the body is written into the document,
  its name read as the name of a field of the document.
\<close>

fun set_fields :: "object \<Rightarrow> object \<Rightarrow> object" where
  "set_fields [] fs = fs"
| "set_fields ((k, v) # kvs) fs = set_fields kvs (AList.update k v fs)"

text \<open>
  \<open>collection.findOneAndUpdate(filter, {$set: body}, {returnOriginal: false})\<close>: the
  first matching document is updated, or nothing is when no document matches. The
  \<open>.value\<close> of the result is the document as it was before the update: the releases
  of the driver named above do not know the option \<open>returnOriginal\<close> and answer the
  original document unless told otherwise.
\<close>

fun findOneAndUpdate :: "filter \<Rightarrow> object \<Rightarrow> document list \<Rightarrow> document option \<times> document list" where
  "findOneAndUpdate q b [] = (None, [])"
| "findOneAndUpdate q b (d # ds) =
     (if matches q d
      then (Some d, d\<lparr>doc_fields := set_fields b (doc_fields d)\<rparr> # ds)
      else (let r = findOneAndUpdate q b ds in (fst r, d # snd r)))"

text \<open>\<open>collection.findOneAndDelete(filter)\<close>.\<close>

fun findOneAndDelete :: "filter \<Rightarrow> document list \<Rightarrow> document option \<times> document list" where
  "findOneAndDelete q [] = (None, [])"
| "findOneAndDelete q (d # ds) =
     (if matches q d then (Some d, ds)
      else (let r = findOneAndDelete q ds in (fst r, d # snd r)))"

section \<open>Requests, responses and what a handler did\<close>

text \<open>
  \<open>req_userId\<close>, \<open>req_isAdmin\<close> and \<open>req_thisEmail\<close> are the properties that the
  authentication middleware sets on the request from the token before a handler runs;
  \<open>req_param\<close> is the path parameter (\<open>:uid\<close> or \<open>:orderId\<close>) and \<open>req_body\<close> the
  parsed body, one entry per property.
\<close>

record request =
  req_userId :: jsval
  req_isAdmin :: jsval
  req_thisEmail :: jsval
  req_param :: string
  req_body :: object

text \<open>
  The messages of the error bodies \<open>{error: ...}\<close>, in the order of the source:
  no authorization for this request; user not found; no authorization to post a user;
  the user exists; the values to update cannot be empty; no authorization to modify this
  user; no authorization to change the user's role; no authorization to delete this user;
  the status is not the right one; product not found.
\<close>

datatype message =
    No_auth_request
  | User_not_found
  | No_auth_post
  | User_exists
  | Empty_values
  | No_auth_modify
  | No_auth_role
  | No_auth_delete
  | Bad_status
  | Product_not_found

datatype payload = Error message | Body object

datatype exception = BSONError | BcryptError | TypeError

text \<open>
  What the handler ended with: \<open>resp.status(n).json(p)\<close>, \<open>next(n)\<close> (the error handler
  is given the status), \<open>next()\<close>, or an exception that nothing in the handler catches.
\<close>

datatype response =
    Json nat payload
  | NextErr nat
  | Next
  | Threw exception

text \<open>
  The calls to the database client, in order. \<open>Connect\<close> and \<open>Close\<close> open and release
  the connection; the other four are the accesses to a collection, named by the
  collection. The calls are taken to succeed: a database that cannot be reached is
  outside the model.
\<close>

datatype store_op =
    Connect
  | Close
  | FindOne string filter
  | InsertOne string object
  | FindOneAndUpdate string filter object
  | FindOneAndDelete string filter

fun is_write :: "store_op \<Rightarrow> bool" where
  "is_write (InsertOne c ob) = True"
| "is_write (FindOneAndUpdate c q ob) = True"
| "is_write (FindOneAndDelete c q) = True"
| "is_write _ = False"

record outcome =
  resp :: response
  store_after :: store
  trace :: "store_op list"

definition finish :: "response \<Rightarrow> store \<Rightarrow> store_op list \<Rightarrow> outcome" where
  "finish r s t = \<lparr>resp = r, store_after = s, trace = t\<rparr>"

text \<open>The user as the routes answer it: \<open>{id, email, role}\<close>.\<close>

definition user_json :: "document \<Rightarrow> payload" where
  "user_json d =
     Body [(''id'', JStr (doc_id d)),
           (''email'', get (doc_fields d) ''email''),
           (''role'', get (doc_fields d) ''role'')]"

section \<open>The user routes\<close>

text \<open>
  \<open>GET /users/:uid\<close>. The connection is opened first; the authorization check follows,
  then the lookup by email or by identifier.
\<close>

definition get_user :: "store \<Rightarrow> request \<Rightarrow> outcome" where
  "get_user s req =
     (let uid = req_param req;
          isAdmin = (req_isAdmin req = JBool True);
          isAuthorized = (req_userId req = JStr uid \<or> isAdmin \<or> req_thisEmail req = JStr uid)
      in if \<not> isAuthorized
         then finish (Json 403 (Error No_auth_request)) s [Connect, Close]
         else if CHR ''@'' \<in> set uid
         then (case findOne (ByField ''email'' (JStr uid)) (users s) of
                 Some d \<Rightarrow> finish (Json 200 (user_json d)) s
                             [Connect, FindOne ''users'' (ByField ''email'' (JStr uid)), Close]
               | None \<Rightarrow> finish (Json 404 (Error User_not_found)) s
                             [Connect, FindOne ''users'' (ByField ''email'' (JStr uid)), Close])
         else if is_Number uid
         then (case ObjectId uid of
                 None \<Rightarrow> finish (Threw BSONError) s [Connect]
               | Some i \<Rightarrow>
                   (case findOne (ById i) (users s) of
                      Some d \<Rightarrow> finish (Json 200 (user_json d)) s
                                  [Connect, FindOne ''users'' (ById i), Close]
                    | None \<Rightarrow> finish (Json 404 (Error User_not_found)) s
                                  [Connect, FindOne ''users'' (ById i), Close]))
         else finish (Json 404 (Error User_not_found)) s [Connect, Close])"

text \<open>
  \<open>POST /users\<close>. \<open>hash\<close> is \<open>bcrypt.hashSync(_, 10)\<close>, which throws for anything
  but a string; \<open>new_id\<close> is the identifier the driver gives the inserted document.
\<close>

definition post_user :: "(string \<Rightarrow> string) \<Rightarrow> string \<Rightarrow> store \<Rightarrow> request \<Rightarrow> outcome" where
  "post_user hash new_id s req =
     (let email = get (req_body req) ''email'';
          password = get (req_body req) ''password'';
          role = get (req_body req) ''role''
      in if falsy email \<or> falsy password \<or> falsy role
         then finish (NextErr 400) s []
         else if \<not> (req_isAdmin req = JBool True)
         then finish (Json 403 (Error No_auth_post)) s [Connect, Close]
         else (case findOne (ByField ''email'' email) (users s) of
                 None \<Rightarrow>
                   (case password of
                      JStr p \<Rightarrow>
                        (let newUser = [(''email'', email), (''password'', JStr (hash p)), (''role'', role)]
                         in finish (Json 200 (Body [(''id'', JStr new_id), (''email'', email), (''role'', role)]))
                              (s\<lparr>users := insertOne new_id newUser (users s)\<rparr>)
                              [Connect, FindOne ''users'' (ByField ''email'' email),
                               InsertOne ''users'' newUser, Close])
                    | _ \<Rightarrow> finish (Threw BcryptError) s
                             [Connect, FindOne ''users'' (ByField ''email'' email)])
               | Some u \<Rightarrow> finish (Json 403 (Error User_exists)) s
                             [Connect, FindOne ''users'' (ByField ''email'' email), Close]))"

text \<open>
  The end of \<open>PATCH /users/:uid\<close> and \<open>DELETE /users/:uid\<close>: the found user is
  answered with 200, no user with 404.
\<close>

definition user_result :: "document option \<Rightarrow> store \<Rightarrow> store_op list \<Rightarrow> outcome" where
  "user_result found s t =
     (case found of
        Some d \<Rightarrow> finish (Json 200 (user_json d)) s (t @ [Close])
      | None \<Rightarrow> finish (Json 404 (Error User_not_found)) s (t @ [Close]))"

text \<open>
  \<open>PATCH /users/:uid\<close>, from the update on: the body written into the user that the
  path parameter names, by email when it holds \<open>@\<close>, else by \<open>new ObjectId(uid)\<close>.
\<close>

definition patch_user_update :: "store \<Rightarrow> string \<Rightarrow> object \<Rightarrow> outcome" where
  "patch_user_update s uid body =
     (if CHR ''@'' \<in> set uid
      then (let r = findOneAndUpdate (ByField ''email'' (JStr uid)) body (users s)
            in user_result (fst r) (s\<lparr>users := snd r\<rparr>)
                 [Connect, FindOneAndUpdate ''users'' (ByField ''email'' (JStr uid)) body])
      else (case ObjectId uid of
              None \<Rightarrow> finish (Threw BSONError) s [Connect]
            | Some i \<Rightarrow>
                (let r = findOneAndUpdate (ById i) body (users s)
                 in user_result (fst r) (s\<lparr>users := snd r\<rparr>)
                      [Connect, FindOneAndUpdate ''users'' (ById i) body])))"

text \<open>
  \<open>PATCH /users/:uid\<close>. \<open>hash\<close> is \<open>bcrypt.hash(_, 10)\<close>, which fails for anything
  but a string; the hashed password replaces the password of the body before the update.
\<close>

definition patch_user :: "(string \<Rightarrow> string) \<Rightarrow> store \<Rightarrow> request \<Rightarrow> outcome" where
  "patch_user hash s req =
     (let uid = req_param req;
          email = get (req_body req) ''email'';
          password = get (req_body req) ''password'';
          role = get (req_body req) ''role''
      in if email = JStr [] \<or> password = JStr [] \<or> length (req_body req) = 0
         then finish (Json 400 (Error Empty_values)) s [Connect, Close]
         else
           (let isAdmin = (req_isAdmin req = JBool True);
                isUser = (req_userId req = JStr uid \<or> req_thisEmail req = JStr uid);
                isAuthorized = (isUser \<or> isAdmin)
            in if \<not> isAuthorized
               then finish (Json 403 (Error No_auth_modify)) s [Connect, Close]
               else if \<not> isAdmin \<and> truthy role \<and> \<not> strict_eq role (req_isAdmin req)
               then finish (Json 403 (Error No_auth_role)) s [Connect, Close]
               else if truthy password
               then (case password of
                       JStr p \<Rightarrow>
                         patch_user_update s uid
                           (AList.update ''password'' (JStr (hash p)) (req_body req))
                     | _ \<Rightarrow> finish (Threw BcryptError) s [Connect])
               else patch_user_update s uid (req_body req)))"

text \<open>\<open>DELETE /users/:uid\<close>.\<close>

definition delete_user :: "store \<Rightarrow> request \<Rightarrow> outcome" where
  "delete_user s req =
     (let uid = req_param req;
          isAdmin = (req_isAdmin req = JBool True);
          isAuthorized = (req_userId req = JStr uid \<or> isAdmin \<or> req_thisEmail req = JStr uid)
      in if \<not> isAuthorized
         then finish (Json 403 (Error No_auth_delete)) s [Connect, Close]
         else if CHR ''@'' \<in> set uid
         then (let r = findOneAndDelete (ByField ''email'' (JStr uid)) (users s)
               in user_result (fst r) (s\<lparr>users := snd r\<rparr>)
                    [Connect, FindOneAndDelete ''users'' (ByField ''email'' (JStr uid))])
         else (case ObjectId uid of
                 None \<Rightarrow> finish (Threw BSONError) s [Connect]
               | Some i \<Rightarrow>
                   (let r = findOneAndDelete (ById i) (users s)
                    in user_result (fst r) (s\<lparr>users := snd r\<rparr>)
                         [Connect, FindOneAndDelete ''users'' (ById i)])))"

section \<open>The administrator at start\<close>

text \<open>
  The configuration holds the administrator's email and password when the environment
  gives them; a value that is absent or the empty string is falsy. \<open>hash\<close> is
  \<open>bcrypt.hashSync(_, 10)\<close>. \<open>initAdminUser\<close> ends by calling \<open>next()\<close>.
\<close>

record config =
  adminEmail :: "string option"
  adminPassword :: "string option"

definition initAdminUser :: "(string \<Rightarrow> string) \<Rightarrow> string \<Rightarrow> config \<Rightarrow> store \<Rightarrow> outcome" where
  "initAdminUser hash new_id cfg s =
     (case (adminEmail cfg, adminPassword cfg) of
        (Some e, Some p) \<Rightarrow>
          (if e = [] \<or> p = []
           then finish Next s []
           else (let adminUser = [(''email'', JStr e), (''password'', JStr (hash p)),
                                  (''role'', JStr ''admin'')];
                     q = ByField ''email'' (JStr e)
                 in case findOne q (users s) of
                      None \<Rightarrow> finish Next (s\<lparr>users := insertOne new_id adminUser (users s)\<rparr>)
                                [Connect, FindOne ''users'' q, InsertOne ''users'' adminUser, Close]
                    | Some user \<Rightarrow> finish Next s [Connect, FindOne ''users'' q, Close]))
      | _ \<Rightarrow> finish Next s [])"

text \<open>The user records that a query for the email \<open>e\<close> finds.\<close>

definition with_email :: "string \<Rightarrow> document list \<Rightarrow> document list" where
  "with_email e ds = filter (matches (ByField ''email'' (JStr e))) ds"

section \<open>The order update\<close>

text \<open>
  \<open>products.map((product) => ({qty: product.qty, product: product.product}))\<close>: reading
  a property of \<open>null\<close> throws, and so does \<open>.map\<close> of anything but an array
  (\<open>None\<close>).
\<close>

fun product_entry :: "jsval \<Rightarrow> jsval option" where
  "product_entry JNull = None"
| "product_entry JUndefined = None"
| "product_entry (JObject ob) = Some (JObject [(''qty'', get ob ''qty''), (''product'', get ob ''product'')])"
| "product_entry v = Some (JObject [(''qty'', JUndefined), (''product'', JUndefined)])"

fun map_products :: "jsval \<Rightarrow> jsval list option" where
  "map_products (JArray xs) = those (map product_entry xs)"
| "map_products v = None"

definition order_json :: "document \<Rightarrow> jsval list \<Rightarrow> payload" where
  "order_json d ps =
     Body [(''_id'', JStr (doc_id d)),
           (''userId'', get (doc_fields d) ''userId''),
           (''client'', get (doc_fields d) ''client''),
           (''products'', JArray ps),
           (''status'', get (doc_fields d) ''status''),
           (''dateEntry'', get (doc_fields d) ''dateEntry''),
           (''dateProcessed'', get (doc_fields d) ''dateProcessed'')]"

text \<open>The status check of the order update.\<close>

definition status_rejected :: "jsval \<Rightarrow> bool" where
  "status_rejected status =
     (status \<noteq> JStr ''delivered'' \<and> status \<noteq> JStr ''pending'' \<and> status \<noteq> JStr ''canceled''
      \<and> status \<noteq> JStr ''delivering'' \<and> status \<noteq> JStr ''preparing'')"

text \<open>The empty-values check of the order update.\<close>

definition order_empty_values :: "object \<Rightarrow> bool" where
  "order_empty_values body =
     (length body = 0 \<or> get body ''userId'' = JStr [] \<or> get body ''client'' = JStr []
      \<or> get body ''dateEntry'' = JStr [] \<or> get body ''products'' = JStr []
      \<or> get body ''status'' = JStr [] \<or> get body ''dateProcessed'' = JStr [])"

text \<open>
  \<open>PATCH /orders/:orderId\<close>, from the update on: the body is written into the order
  with the identifier. For a found order the connection is closed first and the answer is
  built after, from the order that \<open>findOneAndUpdate\<close> gave back; building it can
  throw.
\<close>

definition order_update :: "store \<Rightarrow> string \<Rightarrow> object \<Rightarrow> outcome" where
  "order_update s i body =
     (let r = findOneAndUpdate (ById i) body (orders s);
          s' = s\<lparr>orders := snd r\<rparr>;
          t = [Connect, FindOneAndUpdate ''orders'' (ById i) body]
      in case fst r of
           Some d \<Rightarrow>
             (case map_products (get (doc_fields d) ''products'') of
                Some ps \<Rightarrow> finish (Json 200 (order_json d ps)) s' (t @ [Close])
              | None \<Rightarrow> finish (Threw TypeError) s' (t @ [Close]))
         | None \<Rightarrow> finish (Json 404 (Error Product_not_found)) s' (t @ [Close]))"

text \<open>\<open>PATCH /orders/:orderId\<close>.\<close>

definition patch_order :: "store \<Rightarrow> request \<Rightarrow> outcome" where
  "patch_order s req =
     (let orderId = req_param req;
          status = get (req_body req) ''status''
      in if order_empty_values (req_body req)
         then finish (Json 400 (Error Empty_values)) s [Connect, Close]
         else if \<not> (req_isAdmin req = JBool True)
         then finish (Json 403 (Error No_auth_modify)) s [Connect, Close]
         else if is_hex24 orderId
         then (if status_rejected status
               then finish (Json 400 (Error Bad_status)) s [Connect, Close]
               else (case ObjectId orderId of
                       None \<Rightarrow> finish (Threw BSONError) s [Connect]
                     | Some i \<Rightarrow> order_update s i (req_body req)))
         else finish (Json 404 (Error Product_not_found)) s [Connect, Close])"

section \<open>Identifiers of 24 hexadecimal digits\<close>

lemma ObjectId_hex24: "is_hex24 s \<Longrightarrow> ObjectId s = Some (map lower_hex s)"
  by (simp add: ObjectId_def is_hex24_def)

section \<open>Validation that comes before everything else\<close>

text \<open>
  The trace \<open>[Connect, Close]\<close> is that of a handler that opened the connection to the
  store and closed it without a call on a collection; the trace \<open>[]\<close> is that of a
  handler that did not even connect.
\<close>

text \<open>
  C4, as the code has it. A user update whose body is empty, or whose \<open>email\<close> or
  \<open>password\<close> is the empty string, is answered with 400 and the message that the values
  to update cannot be empty, whoever the caller is and whatever the target: the check
  stands before the authorization check. The handler has opened the connection to the
  store by then and closes it; it calls no collection, and the store is as it was.
\<close>

theorem patch_user_empty_values:
  assumes "req_body req = [] \<or> get (req_body req) ''email'' = JStr []
           \<or> get (req_body req) ''password'' = JStr []"
  shows "resp (patch_user hash s req) = Json 400 (Error Empty_values)
       \<and> store_after (patch_user hash s req) = s
       \<and> trace (patch_user hash s req) = [Connect, Close]"
  using assms by (auto simp: patch_user_def finish_def Let_def)

theorem patch_user_empty_values_witness:
  "get [(''email'', JStr ''b@x.com''), (''password'', JStr [])] ''password'' = JStr []
   \<and> resp (patch_user (\<lambda>p. CHR ''#'' # p)
           \<lparr>users = [\<lparr>doc_id = ''0123456789abcdef01234567'',
                      doc_fields = [(''email'', JStr ''a@x.com''), (''role'', JStr ''admin'')]\<rparr>],
            orders = []\<rparr>
           \<lparr>req_userId = JStr ''0123456789abcdef01234567'', req_isAdmin = JBool True,
            req_thisEmail = JStr ''a@x.com'', req_param = ''a@x.com'',
            req_body = [(''email'', JStr ''b@x.com''), (''password'', JStr [])]\<rparr>)
     = Json 400 (Error Empty_values)"
  using patch_user_empty_values [of
     "\<lparr>req_userId = JStr ''0123456789abcdef01234567'', req_isAdmin = JBool True,
       req_thisEmail = JStr ''a@x.com'', req_param = ''a@x.com'',
       req_body = [(''email'', JStr ''b@x.com''), (''password'', JStr [])]\<rparr>"
     "\<lambda>p. CHR ''#'' # p"]
  by (simp add: get_def)

text \<open>
  The claim as stated puts the rejection before any access to the store. The handler
  awaits the connection to the store before it looks at the body, so the rejected update
  has connected; the creation with the same body, which is rejected before the client is
  made, has not.
\<close>

theorem patch_user_empty_body_connects_counterexample:
  "trace (patch_user (\<lambda>p. CHR ''#'' # p) \<lparr>users = [], orders = []\<rparr>
     \<lparr>req_userId = JStr ''aaaaaaaaaaaaaaaaaaaaaaaa'', req_isAdmin = JBool True,
      req_thisEmail = JStr ''admin@x.com'', req_param = ''a@x.com'', req_body = []\<rparr>)
   = [Connect, Close]
   \<and> trace (post_user (\<lambda>p. CHR ''#'' # p) ''0123456789abcdef01234567''
     \<lparr>users = [], orders = []\<rparr>
     \<lparr>req_userId = JStr ''aaaaaaaaaaaaaaaaaaaaaaaa'', req_isAdmin = JBool True,
      req_thisEmail = JStr ''admin@x.com'', req_param = [], req_body = []\<rparr>)
   = []"
  by (simp add: patch_user_def post_user_def falsy_def get_def finish_def Let_def)

text \<open>
  C6. A user creation in which \<open>email\<close>, \<open>password\<close> or \<open>role\<close> is missing or the
  empty string hands the status 400 to the error handler (\<open>next(400)\<close>) before the
  connection is even opened: nothing is looked up, nothing is inserted, and the store is
  as it was.
\<close>

theorem post_user_missing_field:
  assumes "k \<in> {''email'', ''password'', ''role''}"
      and "get (req_body req) k = JUndefined \<or> get (req_body req) k = JStr []"
  shows "resp (post_user hash new_id s req) = NextErr 400
       \<and> store_after (post_user hash new_id s req) = s
       \<and> trace (post_user hash new_id s req) = []"
  using assms by (auto simp: post_user_def finish_def Let_def falsy_def)

theorem post_user_missing_field_witness:
  "get [(''email'', JStr ''b@x.com''), (''password'', JStr ''pw'')] ''role'' = JUndefined
   \<and> resp (post_user (\<lambda>p. CHR ''#'' # p) ''0123456789abcdef01234567''
           \<lparr>users = [], orders = []\<rparr>
           \<lparr>req_userId = JStr ''aaaaaaaaaaaaaaaaaaaaaaaa'', req_isAdmin = JBool True,
            req_thisEmail = JStr ''admin@x.com'', req_param = [],
            req_body = [(''email'', JStr ''b@x.com''), (''password'', JStr ''pw'')]\<rparr>)
     = NextErr 400"
  using post_user_missing_field [of "''role''"
     "\<lparr>req_userId = JStr ''aaaaaaaaaaaaaaaaaaaaaaaa'', req_isAdmin = JBool True,
       req_thisEmail = JStr ''admin@x.com'', req_param = [],
       req_body = [(''email'', JStr ''b@x.com''), (''password'', JStr ''pw'')]\<rparr>"
     "\<lambda>p. CHR ''#'' # p" "''0123456789abcdef01234567''" "\<lparr>users = [], orders = []\<rparr>"]
  by (simp add: get_def)

section \<open>Who may read, update and delete a user\<close>

lemma user_result_not_403: "resp (user_result f s t) \<noteq> Json 403 p"
  by (simp add: user_result_def finish_def split: option.splits)

lemma patch_user_update_not_403: "resp (patch_user_update s uid b) \<noteq> Json 403 p"
  by (simp add: patch_user_update_def finish_def Let_def user_result_not_403 split: option.splits)

lemma truthy_nonempty: "truthy (get b k) \<Longrightarrow> b \<noteq> []"
  by (auto simp: get_def)

text \<open>
  C1, as the code has it. The caller is allowed when the target equals the identifier of
  the token (\<open>req.userId\<close>), or equals the email of the token (\<open>req.thisEmail\<close>), or
  the caller is admin (\<open>req.isAdmin === true\<close>). Reading and deleting a user are
  answered with 403 exactly when the caller is not allowed, and then after opening and
  closing the connection only, with the store as it was. For the update the same holds of
  the 403 of the authorization check once the body has passed the empty-values check.
  That check comes first: a body that fails it is answered with 400, whoever calls. An
  update that is allowed can still be refused by the check of the role, which answers 403
  to a caller who is not admin and sends a truthy \<open>role\<close> that is not strictly equal to
  \<open>req.isAdmin\<close>.
\<close>

theorem user_access_decision:
  "let uid = req_param req;
       allowed = (req_userId req = JStr uid \<or> req_thisEmail req = JStr uid
                  \<or> req_isAdmin req = JBool True);
       checked = (req_body req \<noteq> [] \<and> get (req_body req) ''email'' \<noteq> JStr []
                  \<and> get (req_body req) ''password'' \<noteq> JStr [])
   in ((\<exists>p. resp (get_user s req) = Json 403 p) = (\<not> allowed))
    \<and> (\<not> allowed \<longrightarrow>
          get_user s req = finish (Json 403 (Error No_auth_request)) s [Connect, Close])
    \<and> ((\<exists>p. resp (delete_user s req) = Json 403 p) = (\<not> allowed))
    \<and> (\<not> allowed \<longrightarrow>
          delete_user s req = finish (Json 403 (Error No_auth_delete)) s [Connect, Close])
    \<and> (checked \<longrightarrow>
          (resp (patch_user hash s req) = Json 403 (Error No_auth_modify)) = (\<not> allowed))
    \<and> (checked \<and> \<not> allowed \<longrightarrow>
          patch_user hash s req = finish (Json 403 (Error No_auth_modify)) s [Connect, Close])
    \<and> (\<not> checked \<longrightarrow> resp (patch_user hash s req) = Json 400 (Error Empty_values))
    \<and> (checked \<and> allowed \<and> req_isAdmin req \<noteq> JBool True
         \<and> truthy (get (req_body req) ''role'')
         \<and> \<not> strict_eq (get (req_body req) ''role'') (req_isAdmin req) \<longrightarrow>
          resp (patch_user hash s req) = Json 403 (Error No_auth_role))"
proof -
  have g: "(\<exists>p. resp (get_user s req) = Json 403 p) =
           (\<not> (req_userId req = JStr (req_param req) \<or> req_thisEmail req = JStr (req_param req)
                \<or> req_isAdmin req = JBool True))"
    by (auto simp: get_user_def finish_def Let_def is_Number_def split: option.splits)
  have g': "\<not> (req_userId req = JStr (req_param req) \<or> req_thisEmail req = JStr (req_param req)
                \<or> req_isAdmin req = JBool True) \<Longrightarrow>
            get_user s req = finish (Json 403 (Error No_auth_request)) s [Connect, Close]"
    by (simp add: get_user_def Let_def)
  have d: "(\<exists>p. resp (delete_user s req) = Json 403 p) =
           (\<not> (req_userId req = JStr (req_param req) \<or> req_thisEmail req = JStr (req_param req)
                \<or> req_isAdmin req = JBool True))"
    by (auto simp: delete_user_def finish_def Let_def user_result_not_403 split: option.splits)
  have d': "\<not> (req_userId req = JStr (req_param req) \<or> req_thisEmail req = JStr (req_param req)
                \<or> req_isAdmin req = JBool True) \<Longrightarrow>
            delete_user s req = finish (Json 403 (Error No_auth_delete)) s [Connect, Close]"
    by (simp add: delete_user_def Let_def)
  have p: "req_body req \<noteq> [] \<and> get (req_body req) ''email'' \<noteq> JStr []
                  \<and> get (req_body req) ''password'' \<noteq> JStr [] \<Longrightarrow>
           (resp (patch_user hash s req) = Json 403 (Error No_auth_modify)) =
           (\<not> (req_userId req = JStr (req_param req) \<or> req_thisEmail req = JStr (req_param req)
                \<or> req_isAdmin req = JBool True))"
    by (auto simp: patch_user_def finish_def Let_def patch_user_update_not_403 split: jsval.splits)
  have p': "req_body req \<noteq> [] \<and> get (req_body req) ''email'' \<noteq> JStr []
                  \<and> get (req_body req) ''password'' \<noteq> JStr [] \<Longrightarrow>
            \<not> (req_userId req = JStr (req_param req) \<or> req_thisEmail req = JStr (req_param req)
                \<or> req_isAdmin req = JBool True) \<Longrightarrow>
            patch_user hash s req = finish (Json 403 (Error No_auth_modify)) s [Connect, Close]"
    by (simp add: patch_user_def Let_def)
  have e: "\<not> (req_body req \<noteq> [] \<and> get (req_body req) ''email'' \<noteq> JStr []
                  \<and> get (req_body req) ''password'' \<noteq> JStr []) \<Longrightarrow>
           resp (patch_user hash s req) = Json 400 (Error Empty_values)"
    by (auto simp: patch_user_def finish_def Let_def)
  have r: "req_body req \<noteq> [] \<and> get (req_body req) ''email'' \<noteq> JStr []
                  \<and> get (req_body req) ''password'' \<noteq> JStr [] \<Longrightarrow>
           req_userId req = JStr (req_param req) \<or> req_thisEmail req = JStr (req_param req)
                \<or> req_isAdmin req = JBool True \<Longrightarrow>
           req_isAdmin req \<noteq> JBool True \<Longrightarrow>
           truthy (get (req_body req) ''role'') \<Longrightarrow>
           \<not> strict_eq (get (req_body req) ''role'') (req_isAdmin req) \<Longrightarrow>
           resp (patch_user hash s req) = Json 403 (Error No_auth_role)"
    by (auto simp: patch_user_def finish_def Let_def)
  show ?thesis
    unfolding Let_def
    apply (intro conjI impI)
    using g g' d d' p p' e r by blast+
qed

theorem user_access_decision_witness:
  "get_user \<lparr>users = [], orders = []\<rparr>
     \<lparr>req_userId = JStr ''0123456789abcdef01234567'', req_isAdmin = JBool False,
      req_thisEmail = JStr ''a@x.com'', req_param = ''b@x.com'',
      req_body = [(''password'', JStr ''pw'')]\<rparr>
   = finish (Json 403 (Error No_auth_request)) \<lparr>users = [], orders = []\<rparr> [Connect, Close]
   \<and> delete_user \<lparr>users = [], orders = []\<rparr>
     \<lparr>req_userId = JStr ''0123456789abcdef01234567'', req_isAdmin = JBool False,
      req_thisEmail = JStr ''a@x.com'', req_param = ''b@x.com'',
      req_body = [(''password'', JStr ''pw'')]\<rparr>
   = finish (Json 403 (Error No_auth_delete)) \<lparr>users = [], orders = []\<rparr> [Connect, Close]
   \<and> patch_user (\<lambda>p. CHR ''#'' # p) \<lparr>users = [], orders = []\<rparr>
     \<lparr>req_userId = JStr ''0123456789abcdef01234567'', req_isAdmin = JBool False,
      req_thisEmail = JStr ''a@x.com'', req_param = ''b@x.com'',
      req_body = [(''password'', JStr ''pw'')]\<rparr>
   = finish (Json 403 (Error No_auth_modify)) \<lparr>users = [], orders = []\<rparr> [Connect, Close]"
  using user_access_decision [of
     "\<lparr>req_userId = JStr ''0123456789abcdef01234567'', req_isAdmin = JBool False,
       req_thisEmail = JStr ''a@x.com'', req_param = ''b@x.com'',
       req_body = [(''password'', JStr ''pw'')]\<rparr>"
     "\<lparr>users = [], orders = []\<rparr>" "\<lambda>p. CHR ''#'' # p"]
  by (simp add: Let_def get_def)

text \<open>
  The claim as stated promises a 403 for every update by a caller who is not allowed. A
  caller who is neither the target nor admin and sends an empty body is answered with 400.
\<close>

theorem patch_user_stranger_empty_body_counterexample:
  "resp (patch_user (\<lambda>p. CHR ''#'' # p) \<lparr>users = [], orders = []\<rparr>
     \<lparr>req_userId = JStr ''0123456789abcdef01234567'', req_isAdmin = JBool False,
      req_thisEmail = JStr ''a@x.com'', req_param = ''b@x.com'', req_body = []\<rparr>)
   = Json 400 (Error Empty_values)"
  by (simp add: patch_user_def finish_def Let_def)

text \<open>
  What the check of the role refuses. A caller who is not admin, whose body passes the
  empty-values check and holds a truthy \<open>role\<close> that is not strictly equal to
  \<open>req.isAdmin\<close>, is answered with 403, also for the caller's own record: by the role
  check for the own record, by the authorization check otherwise. No collection is
  called and the store is as it was.
\<close>

theorem patch_user_role_denied:
  assumes "req_isAdmin req \<noteq> JBool True"
      and "get (req_body req) ''email'' \<noteq> JStr []"
      and "get (req_body req) ''password'' \<noteq> JStr []"
      and "truthy (get (req_body req) ''role'')"
      and "\<not> strict_eq (get (req_body req) ''role'') (req_isAdmin req)"
  shows "resp (patch_user hash s req) =
           Json 403 (Error (if req_userId req = JStr (req_param req)
                               \<or> req_thisEmail req = JStr (req_param req)
                            then No_auth_role else No_auth_modify))
       \<and> store_after (patch_user hash s req) = s
       \<and> trace (patch_user hash s req) = [Connect, Close]"
proof -
  have "req_body req \<noteq> []" using assms(4) by (rule truthy_nonempty)
  then show ?thesis using assms
    by (simp add: patch_user_def finish_def Let_def)
qed

theorem patch_user_role_denied_witness:
  "truthy (get [(''role'', JStr ''admin'')] ''role'')
   \<and> resp (patch_user (\<lambda>p. CHR ''#'' # p)
       \<lparr>users = [\<lparr>doc_id = ''0123456789abcdef01234567'',
                  doc_fields = [(''email'', JStr ''a@x.com''), (''role'', JStr ''waiter'')]\<rparr>],
        orders = []\<rparr>
       \<lparr>req_userId = JStr ''0123456789abcdef01234567'', req_isAdmin = JBool False,
        req_thisEmail = JStr ''a@x.com'', req_param = ''a@x.com'',
        req_body = [(''role'', JStr ''admin'')]\<rparr>)
     = Json 403 (Error No_auth_role)"
  using patch_user_role_denied [of
       "\<lparr>req_userId = JStr ''0123456789abcdef01234567'', req_isAdmin = JBool False,
        req_thisEmail = JStr ''a@x.com'', req_param = ''a@x.com'',
        req_body = [(''role'', JStr ''admin'')]\<rparr>"
       "\<lambda>p. CHR ''#'' # p"
       "\<lparr>users = [\<lparr>doc_id = ''0123456789abcdef01234567'',
                  doc_fields = [(''email'', JStr ''a@x.com''), (''role'', JStr ''waiter'')]\<rparr>],
        orders = []\<rparr>"]
  by (simp add: get_def)

text \<open>
  C5 at a failing input: a waiter, not admin, updates the own record with the body
  \<open>{role: ""}\<close>. The role check reads \<open>role\<close> for its truthiness, so the empty
  string passes it: the update is made, the answer is 200 with the user as found, and the
  role of the record in the store is now the empty string.
\<close>

theorem patch_user_empty_role_written:
  "patch_user (\<lambda>p. CHR ''#'' # p)
       \<lparr>users = [\<lparr>doc_id = ''0123456789abcdef01234567'',
                  doc_fields = [(''email'', JStr ''a@x.com''), (''role'', JStr ''waiter'')]\<rparr>],
        orders = []\<rparr>
       \<lparr>req_userId = JStr ''0123456789abcdef01234567'', req_isAdmin = JBool False,
        req_thisEmail = JStr ''a@x.com'', req_param = ''a@x.com'',
        req_body = [(''role'', JStr [])]\<rparr>
   = \<lparr>resp = Json 200 (Body [(''id'', JStr ''0123456789abcdef01234567''),
                             (''email'', JStr ''a@x.com''), (''role'', JStr ''waiter'')]),
      store_after =
        \<lparr>users = [\<lparr>doc_id = ''0123456789abcdef01234567'',
                   doc_fields = [(''email'', JStr ''a@x.com''), (''role'', JStr [])]\<rparr>],
         orders = []\<rparr>,
      trace = [Connect,
               FindOneAndUpdate ''users'' (ByField ''email'' (JStr ''a@x.com'')) [(''role'', JStr [])],
               Close]\<rparr>"
  by (simp add: patch_user_def patch_user_update_def user_result_def user_json_def finish_def
        field_matches_def get_def Let_def)

section \<open>Users by identifier\<close>

text \<open>
  C2 at a failing input: an admin reads an existing user by the user's 24 hexadecimal
  digits. The store holds the user under this identifier, and the handler answers 404
  without a lookup: the branch for identifiers is guarded by \<open>uid === Number\<close>.
\<close>

theorem get_user_by_id_not_found:
  "findOne (ById ''0123456789abcdef01234567'')
     [\<lparr>doc_id = ''0123456789abcdef01234567'',
       doc_fields = [(''email'', JStr ''a@x.com''), (''role'', JStr ''waiter'')]\<rparr>]
   = Some \<lparr>doc_id = ''0123456789abcdef01234567'',
       doc_fields = [(''email'', JStr ''a@x.com''), (''role'', JStr ''waiter'')]\<rparr>
   \<and> get_user
     \<lparr>users = [\<lparr>doc_id = ''0123456789abcdef01234567'',
                doc_fields = [(''email'', JStr ''a@x.com''), (''role'', JStr ''waiter'')]\<rparr>],
      orders = []\<rparr>
     \<lparr>req_userId = JStr ''aaaaaaaaaaaaaaaaaaaaaaaa'', req_isAdmin = JBool True,
      req_thisEmail = JStr ''admin@x.com'', req_param = ''0123456789abcdef01234567'',
      req_body = []\<rparr>
   = finish (Json 404 (Error User_not_found))
     \<lparr>users = [\<lparr>doc_id = ''0123456789abcdef01234567'',
                doc_fields = [(''email'', JStr ''a@x.com''), (''role'', JStr ''waiter'')]\<rparr>],
      orders = []\<rparr>
     [Connect, Close]"
  by (simp add: get_user_def findOne_def is_Number_def Let_def)

text \<open>
  C3 at a failing input: an admin deletes, or updates, the user \<open>abc\<close>. The path
  parameter has no \<open>@\<close> and is no identifier; \<open>new ObjectId(uid)\<close> throws, nothing
  catches it, no response is sent and the connection stays open.
\<close>

theorem users_by_malformed_id_throw:
  "delete_user \<lparr>users = [], orders = []\<rparr>
     \<lparr>req_userId = JStr ''aaaaaaaaaaaaaaaaaaaaaaaa'', req_isAdmin = JBool True,
      req_thisEmail = JStr ''admin@x.com'', req_param = ''abc'', req_body = []\<rparr>
   = finish (Threw BSONError) \<lparr>users = [], orders = []\<rparr> [Connect]
   \<and> patch_user (\<lambda>p. CHR ''#'' # p) \<lparr>users = [], orders = []\<rparr>
     \<lparr>req_userId = JStr ''aaaaaaaaaaaaaaaaaaaaaaaa'', req_isAdmin = JBool True,
      req_thisEmail = JStr ''admin@x.com'', req_param = ''abc'',
      req_body = [(''role'', JStr ''waiter'')]\<rparr>
   = finish (Threw BSONError) \<lparr>users = [], orders = []\<rparr> [Connect]"
  by (simp add: delete_user_def patch_user_def patch_user_update_def ObjectId_def is_hex24_def
        get_def Let_def)

section \<open>Creating users\<close>

lemma findOne_None_iff: "(findOne q ds = None) = (\<forall>d \<in> set ds. \<not> matches q d)"
  by (auto simp: findOne_def find_None_iff)

lemma findOne_insertOne:
  "matches q \<lparr>doc_id = i, doc_fields = ob\<rparr> \<Longrightarrow> findOne q (insertOne i ob ds) \<noteq> None"
  by (simp add: findOne_None_iff insertOne_def)

lemma matches_own_email: "matches (ByField ''email'' v) \<lparr>doc_id = i, doc_fields = (''email'', v) # ob\<rparr>"
  by (simp add: field_matches_def get_def)

text \<open>
  C7, as the code has it. When the email of a user creation is already the email of a
  user in the store, the store is left as it was and nothing is written; and when the
  request passes the checks that come first (email, password and role truthy, the caller
  admin), the email is looked up once and the answer is the 403 of the existing user.
\<close>

theorem post_user_existing_email:
  assumes "get (req_body req) ''email'' = JStr e"
      and "\<exists>d \<in> set (users s). get (doc_fields d) ''email'' = JStr e"
  shows "store_after (post_user hash new_id s req) = s
       \<and> filter is_write (trace (post_user hash new_id s req)) = []
       \<and> (req_isAdmin req = JBool True \<and> e \<noteq> [] \<and> truthy (get (req_body req) ''password'')
            \<and> truthy (get (req_body req) ''role'') \<longrightarrow>
          resp (post_user hash new_id s req) = Json 403 (Error User_exists)
          \<and> trace (post_user hash new_id s req) =
              [Connect, FindOne ''users'' (ByField ''email'' (JStr e)), Close])"
proof -
  from assms(2) have "\<exists>d \<in> set (users s). matches (ByField ''email'' (JStr e)) d"
    by (auto simp: field_matches_def)
  then have "findOne (ByField ''email'' (JStr e)) (users s) \<noteq> None"
    by (simp add: findOne_None_iff)
  then obtain u where u: "findOne (ByField ''email'' (JStr e)) (users s) = Some u"
    by blast
  show ?thesis
    using assms(1) u by (simp add: post_user_def finish_def Let_def falsy_def)
qed

theorem post_user_existing_email_witness:
  "resp (post_user (\<lambda>p. CHR ''#'' # p) ''aaaaaaaaaaaaaaaaaaaaaaab''
      \<lparr>users = [\<lparr>doc_id = ''0123456789abcdef01234567'',
                 doc_fields = [(''email'', JStr ''a@x.com''), (''role'', JStr ''waiter'')]\<rparr>],
       orders = []\<rparr>
      \<lparr>req_userId = JStr ''aaaaaaaaaaaaaaaaaaaaaaaa'', req_isAdmin = JBool True,
       req_thisEmail = JStr ''admin@x.com'', req_param = [],
       req_body = [(''email'', JStr ''a@x.com''), (''password'', JStr ''pw''),
                   (''role'', JStr ''chef'')]\<rparr>)
   = Json 403 (Error User_exists)
   \<and> store_after (post_user (\<lambda>p. CHR ''#'' # p) ''aaaaaaaaaaaaaaaaaaaaaaab''
      \<lparr>users = [\<lparr>doc_id = ''0123456789abcdef01234567'',
                 doc_fields = [(''email'', JStr ''a@x.com''), (''role'', JStr ''waiter'')]\<rparr>],
       orders = []\<rparr>
      \<lparr>req_userId = JStr ''aaaaaaaaaaaaaaaaaaaaaaaa'', req_isAdmin = JBool True,
       req_thisEmail = JStr ''admin@x.com'', req_param = [],
       req_body = [(''email'', JStr ''a@x.com''), (''password'', JStr ''pw''),
                   (''role'', JStr ''chef'')]\<rparr>)
   = \<lparr>users = [\<lparr>doc_id = ''0123456789abcdef01234567'',
                 doc_fields = [(''email'', JStr ''a@x.com''), (''role'', JStr ''waiter'')]\<rparr>],
       orders = []\<rparr>"
  using post_user_existing_email [of
      "\<lparr>req_userId = JStr ''aaaaaaaaaaaaaaaaaaaaaaaa'', req_isAdmin = JBool True,
       req_thisEmail = JStr ''admin@x.com'', req_param = [],
       req_body = [(''email'', JStr ''a@x.com''), (''password'', JStr ''pw''),
                   (''role'', JStr ''chef'')]\<rparr>"
      "''a@x.com''"
      "\<lparr>users = [\<lparr>doc_id = ''0123456789abcdef01234567'',
                 doc_fields = [(''email'', JStr ''a@x.com''), (''role'', JStr ''waiter'')]\<rparr>],
       orders = []\<rparr>"
      "\<lambda>p. CHR ''#'' # p" "''aaaaaaaaaaaaaaaaaaaaaaab''"]
  by (simp add: get_def)

text \<open>
  The claim as stated promises the 403 for every creation with an existing email. A
  request with the email of an existing user and no password is answered by the check of
  the fields, which hands 400 to the error handler.
\<close>

theorem post_user_existing_email_no_password_counterexample:
  "resp (post_user (\<lambda>p. CHR ''#'' # p) ''aaaaaaaaaaaaaaaaaaaaaaab''
      \<lparr>users = [\<lparr>doc_id = ''0123456789abcdef01234567'',
                 doc_fields = [(''email'', JStr ''a@x.com''), (''role'', JStr ''waiter'')]\<rparr>],
       orders = []\<rparr>
      \<lparr>req_userId = JStr ''aaaaaaaaaaaaaaaaaaaaaaaa'', req_isAdmin = JBool True,
       req_thisEmail = JStr ''admin@x.com'', req_param = [],
       req_body = [(''email'', JStr ''a@x.com''), (''role'', JStr ''chef'')]\<rparr>)
   = NextErr 400"
  by (simp add: post_user_def finish_def falsy_def get_def Let_def)

section \<open>The administrator at start, twice\<close>

text \<open>
  C8, as the code has it. With the administrator's email and password configured, both
  runs end with \<open>next()\<close>; the second run finds the administrator, inserts nothing and
  leaves the store as the first run left it (the password may be hashed differently in
  each run, and the driver may offer a different identifier). The number of users with
  the administrator's email is then one if it was zero, and what it was otherwise: exactly
  one whenever the store began with at most one.
\<close>

theorem initAdminUser_twice:
  assumes "adminEmail cfg = Some e" and "adminPassword cfg = Some p" and "e \<noteq> []" and "p \<noteq> []"
  shows "let r1 = initAdminUser hash1 id1 cfg s;
             r2 = initAdminUser hash2 id2 cfg (store_after r1)
         in resp r1 = Next \<and> resp r2 = Next
          \<and> store_after r2 = store_after r1
          \<and> trace r2 = [Connect, FindOne ''users'' (ByField ''email'' (JStr e)), Close]
          \<and> length (with_email e (users (store_after r2))) = max 1 (length (with_email e (users s)))
          \<and> (length (with_email e (users s)) \<le> 1 \<longrightarrow>
                length (with_email e (users (store_after r2))) = 1)"
proof (cases "findOne (ByField ''email'' (JStr e)) (users s)")
  case None
  then have "with_email e (users s) = []"
    by (simp add: findOne_None_iff with_email_def)
  moreover have "findOne (ByField ''email'' (JStr e))
      (insertOne id1 [(''email'', JStr e), (''password'', JStr (hash1 p)), (''role'', JStr ''admin'')] (users s)) \<noteq> None"
    by (rule findOne_insertOne) (rule matches_own_email)
  moreover have "with_email e (insertOne id1 [(''email'', JStr e), (''password'', JStr (hash1 p)), (''role'', JStr ''admin'')] (users s))
       = with_email e (users s) @ [\<lparr>doc_id = id1, doc_fields = [(''email'', JStr e), (''password'', JStr (hash1 p)), (''role'', JStr ''admin'')]\<rparr>]"
    by (simp add: with_email_def insertOne_def field_matches_def get_def)
  ultimately show ?thesis
    using assms None by (auto simp: initAdminUser_def finish_def Let_def)
next
  case (Some u)
  then have "\<exists>d \<in> set (users s). matches (ByField ''email'' (JStr e)) d"
    using findOne_None_iff [of "ByField ''email'' (JStr e)" "users s"] by auto
  then have "with_email e (users s) \<noteq> []"
    by (simp add: with_email_def filter_empty_conv)
  then have "1 \<le> length (with_email e (users s))"
    by (cases "with_email e (users s)") auto
  then show ?thesis
    using assms Some by (auto simp: initAdminUser_def finish_def Let_def max_def)
qed

theorem initAdminUser_twice_witness:
  "users (store_after (initAdminUser (\<lambda>p. CHR ''$'' # p) ''aaaaaaaaaaaaaaaaaaaaaaab''
      \<lparr>adminEmail = Some ''admin@x.com'', adminPassword = Some ''secret''\<rparr>
      (store_after (initAdminUser (\<lambda>p. CHR ''#'' # p) ''aaaaaaaaaaaaaaaaaaaaaaaa''
         \<lparr>adminEmail = Some ''admin@x.com'', adminPassword = Some ''secret''\<rparr>
         \<lparr>users = [], orders = []\<rparr>))))
   = [\<lparr>doc_id = ''aaaaaaaaaaaaaaaaaaaaaaaa'',
       doc_fields = [(''email'', JStr ''admin@x.com''), (''password'', JStr ''#secret''),
                     (''role'', JStr ''admin'')]\<rparr>]
   \<and> length (with_email ''admin@x.com''
      (users (store_after (initAdminUser (\<lambda>p. CHR ''$'' # p) ''aaaaaaaaaaaaaaaaaaaaaaab''
      \<lparr>adminEmail = Some ''admin@x.com'', adminPassword = Some ''secret''\<rparr>
      (store_after (initAdminUser (\<lambda>p. CHR ''#'' # p) ''aaaaaaaaaaaaaaaaaaaaaaaa''
         \<lparr>adminEmail = Some ''admin@x.com'', adminPassword = Some ''secret''\<rparr>
         \<lparr>users = [], orders = []\<rparr>)))))) = 1"
  using initAdminUser_twice [of
      "\<lparr>adminEmail = Some ''admin@x.com'', adminPassword = Some ''secret''\<rparr>"
      "''admin@x.com''" "''secret''"
      "\<lambda>p. CHR ''#'' # p" "''aaaaaaaaaaaaaaaaaaaaaaaa''" "\<lparr>users = [], orders = []\<rparr>"
      "\<lambda>p. CHR ''$'' # p" "''aaaaaaaaaaaaaaaaaaaaaaab''"]
  by (simp add: Let_def with_email_def initAdminUser_def finish_def findOne_def insertOne_def
        field_matches_def get_def)

text \<open>
  The claim as stated starts from any store. Creation checks that an email is new, an
  update of the email does not, so a store can hold two users with the administrator's
  email; started from it, two runs leave both.
\<close>

theorem initAdminUser_twice_two_admins_counterexample:
  "with_email ''admin@x.com''
      (users (store_after (initAdminUser (\<lambda>p. CHR ''$'' # p) ''aaaaaaaaaaaaaaaaaaaaaaab''
      \<lparr>adminEmail = Some ''admin@x.com'', adminPassword = Some ''secret''\<rparr>
      (store_after (initAdminUser (\<lambda>p. CHR ''#'' # p) ''aaaaaaaaaaaaaaaaaaaaaaaa''
         \<lparr>adminEmail = Some ''admin@x.com'', adminPassword = Some ''secret''\<rparr>
         \<lparr>users = [\<lparr>doc_id = ''0123456789abcdef01234567'',
                    doc_fields = [(''email'', JStr ''admin@x.com''), (''role'', JStr ''admin'')]\<rparr>,
                   \<lparr>doc_id = ''0123456789abcdef01234568'',
                    doc_fields = [(''email'', JStr ''admin@x.com''), (''role'', JStr ''waiter'')]\<rparr>],
          orders = []\<rparr>)))))
   = [\<lparr>doc_id = ''0123456789abcdef01234567'',
                    doc_fields = [(''email'', JStr ''admin@x.com''), (''role'', JStr ''admin'')]\<rparr>,
                   \<lparr>doc_id = ''0123456789abcdef01234568'',
                    doc_fields = [(''email'', JStr ''admin@x.com''), (''role'', JStr ''waiter'')]\<rparr>]"
  by (simp add: with_email_def initAdminUser_def finish_def findOne_def field_matches_def get_def Let_def)

section \<open>The status of an order update\<close>

lemma order_update_trace:
  "take 2 (trace (order_update s i b)) = [Connect, FindOneAndUpdate ''orders'' (ById i) b]
   \<and> store_after (order_update s i b) = s\<lparr>orders := snd (findOneAndUpdate (ById i) b (orders s))\<rparr>"
  by (simp add: order_update_def finish_def Let_def split: option.splits)

text \<open>
  C9, as the code has it. For an admin and an identifier of 24 hexadecimal digits: a
  status outside \<open>pending\<close>, \<open>canceled\<close>, \<open>delivering\<close>, \<open>delivered\<close>,
  \<open>preparing\<close> is answered with 400 and nothing is accessed; a status among the five
  goes on to \<open>findOneAndUpdate\<close> on the orders, with the body as the update, when none
  of \<open>userId\<close>, \<open>client\<close>, \<open>dateEntry\<close>, \<open>products\<close>, \<open>dateProcessed\<close> is the
  empty string.
\<close>

theorem patch_order_status:
  assumes "req_isAdmin req = JBool True" and "is_hex24 (req_param req)"
  shows "(get (req_body req) ''status''
            \<notin> JStr ` {''pending'', ''canceled'', ''delivering'', ''delivered'', ''preparing''} \<longrightarrow>
          (\<exists>m. resp (patch_order s req) = Json 400 (Error m))
          \<and> store_after (patch_order s req) = s
          \<and> trace (patch_order s req) = [Connect, Close])
       \<and> (get (req_body req) ''status''
            \<in> JStr ` {''pending'', ''canceled'', ''delivering'', ''delivered'', ''preparing''}
          \<and> get (req_body req) ''userId'' \<noteq> JStr [] \<and> get (req_body req) ''client'' \<noteq> JStr []
          \<and> get (req_body req) ''dateEntry'' \<noteq> JStr [] \<and> get (req_body req) ''products'' \<noteq> JStr []
          \<and> get (req_body req) ''dateProcessed'' \<noteq> JStr [] \<longrightarrow>
          take 2 (trace (patch_order s req)) =
            [Connect, FindOneAndUpdate ''orders'' (ById (map lower_hex (req_param req))) (req_body req)]
          \<and> store_after (patch_order s req) =
            s\<lparr>orders := snd (findOneAndUpdate (ById (map lower_hex (req_param req)))
                               (req_body req) (orders s))\<rparr>)"
proof (intro conjI impI)
  assume out: "get (req_body req) ''status''
      \<notin> JStr ` {''pending'', ''canceled'', ''delivering'', ''delivered'', ''preparing''}"
  then have "status_rejected (get (req_body req) ''status'')"
    by (simp add: status_rejected_def)
  then show "\<exists>m. resp (patch_order s req) = Json 400 (Error m)"
    and "store_after (patch_order s req) = s"
    and "trace (patch_order s req) = [Connect, Close]"
    using assms by (simp_all add: patch_order_def finish_def Let_def)
next
  assume ok: "get (req_body req) ''status''
            \<in> JStr ` {''pending'', ''canceled'', ''delivering'', ''delivered'', ''preparing''}
          \<and> get (req_body req) ''userId'' \<noteq> JStr [] \<and> get (req_body req) ''client'' \<noteq> JStr []
          \<and> get (req_body req) ''dateEntry'' \<noteq> JStr [] \<and> get (req_body req) ''products'' \<noteq> JStr []
          \<and> get (req_body req) ''dateProcessed'' \<noteq> JStr []"
  then have st: "\<not> status_rejected (get (req_body req) ''status'')"
    by (auto simp: status_rejected_def)
  from ok have "get (req_body req) ''status'' \<noteq> JUndefined" by auto
  then have "req_body req \<noteq> []" by (auto simp: get_def)
  with ok have ne: "\<not> order_empty_values (req_body req)"
    by (auto simp: order_empty_values_def)
  have eq: "patch_order s req = order_update s (map lower_hex (req_param req)) (req_body req)"
    using assms st ne by (simp add: patch_order_def ObjectId_hex24 Let_def)
  show "take 2 (trace (patch_order s req)) =
            [Connect, FindOneAndUpdate ''orders'' (ById (map lower_hex (req_param req))) (req_body req)]"
    and "store_after (patch_order s req) =
            s\<lparr>orders := snd (findOneAndUpdate (ById (map lower_hex (req_param req)))
                               (req_body req) (orders s))\<rparr>"
    unfolding eq by (simp_all add: order_update_trace)
qed

theorem patch_order_status_witness:
  "trace (patch_order
      \<lparr>users = [],
       orders = [\<lparr>doc_id = ''0123456789abcdef01234567'',
                  doc_fields = [(''userId'', JStr ''u1''), (''products'', JArray []),
                                (''status'', JStr ''pending'')]\<rparr>]\<rparr>
      \<lparr>req_userId = JStr ''aaaaaaaaaaaaaaaaaaaaaaaa'', req_isAdmin = JBool True,
       req_thisEmail = JStr ''admin@x.com'', req_param = ''0123456789ABCDEF01234567'',
       req_body = [(''status'', JStr ''preparing'')]\<rparr>)
   = [Connect,
      FindOneAndUpdate ''orders'' (ById ''0123456789abcdef01234567'') [(''status'', JStr ''preparing'')],
      Close]
   \<and> store_after (patch_order
      \<lparr>users = [],
       orders = [\<lparr>doc_id = ''0123456789abcdef01234567'',
                  doc_fields = [(''userId'', JStr ''u1''), (''products'', JArray []),
                                (''status'', JStr ''pending'')]\<rparr>]\<rparr>
      \<lparr>req_userId = JStr ''aaaaaaaaaaaaaaaaaaaaaaaa'', req_isAdmin = JBool True,
       req_thisEmail = JStr ''admin@x.com'', req_param = ''0123456789ABCDEF01234567'',
       req_body = [(''status'', JStr ''preparing'')]\<rparr>)
   = \<lparr>users = [],
       orders = [\<lparr>doc_id = ''0123456789abcdef01234567'',
                  doc_fields = [(''userId'', JStr ''u1''), (''products'', JArray []),
                                (''status'', JStr ''preparing'')]\<rparr>]\<rparr>
   \<and> patch_order
      \<lparr>users = [],
       orders = [\<lparr>doc_id = ''0123456789abcdef01234567'',
                  doc_fields = [(''userId'', JStr ''u1''), (''products'', JArray []),
                                (''status'', JStr ''pending'')]\<rparr>]\<rparr>
      \<lparr>req_userId = JStr ''aaaaaaaaaaaaaaaaaaaaaaaa'', req_isAdmin = JBool True,
       req_thisEmail = JStr ''admin@x.com'', req_param = ''0123456789ABCDEF01234567'',
       req_body = [(''status'', JStr ''ready'')]\<rparr>
   = finish (Json 400 (Error Bad_status))
      \<lparr>users = [],
       orders = [\<lparr>doc_id = ''0123456789abcdef01234567'',
                  doc_fields = [(''userId'', JStr ''u1''), (''products'', JArray []),
                                (''status'', JStr ''pending'')]\<rparr>]\<rparr>
      [Connect, Close]"
  using patch_order_status [of
      "\<lparr>req_userId = JStr ''aaaaaaaaaaaaaaaaaaaaaaaa'', req_isAdmin = JBool True,
       req_thisEmail = JStr ''admin@x.com'', req_param = ''0123456789ABCDEF01234567'',
       req_body = [(''status'', JStr ''preparing'')]\<rparr>"
      "\<lparr>users = [],
       orders = [\<lparr>doc_id = ''0123456789abcdef01234567'',
                  doc_fields = [(''userId'', JStr ''u1''), (''products'', JArray []),
                                (''status'', JStr ''pending'')]\<rparr>]\<rparr>"]
  by (simp add: patch_order_def order_update_def order_empty_values_def status_rejected_def
        ObjectId_def is_hex24_def is_hex_digit_def lower_hex_def get_def finish_def Let_def)

text \<open>
  The claim as stated sends every request with one of the five statuses on to the update.
  The empty-values check comes before the status check: with \<open>client\<close> the empty string
  the answer is 400 and the order is not touched.
\<close>

theorem patch_order_empty_client_counterexample:
  "patch_order
      \<lparr>users = [],
       orders = [\<lparr>doc_id = ''0123456789abcdef01234567'',
                  doc_fields = [(''userId'', JStr ''u1''), (''products'', JArray []),
                                (''status'', JStr ''preparing'')]\<rparr>]\<rparr>
      \<lparr>req_userId = JStr ''aaaaaaaaaaaaaaaaaaaaaaaa'', req_isAdmin = JBool True,
       req_thisEmail = JStr ''admin@x.com'', req_param = ''0123456789abcdef01234567'',
       req_body = [(''status'', JStr ''pending''), (''client'', JStr [])]\<rparr>
   = finish (Json 400 (Error Empty_values))
      \<lparr>users = [],
       orders = [\<lparr>doc_id = ''0123456789abcdef01234567'',
                  doc_fields = [(''userId'', JStr ''u1''), (''products'', JArray []),
                                (''status'', JStr ''preparing'')]\<rparr>]\<rparr>
      [Connect, Close]"
  by (simp add: patch_order_def order_empty_values_def get_def Let_def)

text \<open>
  C10, as the code has it. An order update whose body is not empty and has no \<open>status\<close>
  never reaches the store: the handler opens and closes the connection and the store is as
  it was, whoever calls. The answer is 400 for an admin with an identifier of 24
  hexadecimal digits (from the empty-values check or from the status check); for a caller
  who is not admin it is the 400 of the empty-values check or else 403, and for an admin
  with any other identifier that 400 or else 404.
\<close>

theorem patch_order_without_status:
  assumes "req_body req \<noteq> []" and "get (req_body req) ''status'' = JUndefined"
  shows "store_after (patch_order s req) = s
       \<and> trace (patch_order s req) = [Connect, Close]
       \<and> (req_isAdmin req = JBool True \<and> is_hex24 (req_param req) \<longrightarrow>
            (\<exists>m. resp (patch_order s req) = Json 400 (Error m)))
       \<and> (req_isAdmin req \<noteq> JBool True \<longrightarrow>
            resp (patch_order s req) = Json 400 (Error Empty_values)
            \<or> resp (patch_order s req) = Json 403 (Error No_auth_modify))
       \<and> (req_isAdmin req = JBool True \<and> \<not> is_hex24 (req_param req) \<longrightarrow>
            resp (patch_order s req) = Json 400 (Error Empty_values)
            \<or> resp (patch_order s req) = Json 404 (Error Product_not_found))"
proof -
  have "status_rejected (get (req_body req) ''status'')"
    using assms(2) by (simp add: status_rejected_def)
  then show ?thesis
    by (simp add: patch_order_def finish_def Let_def)
qed

theorem patch_order_without_status_witness:
  "get [(''client'', JStr ''Ana'')] ''status'' = JUndefined
   \<and> patch_order
      \<lparr>users = [],
       orders = [\<lparr>doc_id = ''0123456789abcdef01234567'',
                  doc_fields = [(''userId'', JStr ''u1''), (''products'', JArray []),
                                (''status'', JStr ''pending'')]\<rparr>]\<rparr>
      \<lparr>req_userId = JStr ''aaaaaaaaaaaaaaaaaaaaaaaa'', req_isAdmin = JBool True,
       req_thisEmail = JStr ''admin@x.com'', req_param = ''0123456789abcdef01234567'',
       req_body = [(''client'', JStr ''Ana'')]\<rparr>
   = finish (Json 400 (Error Bad_status))
      \<lparr>users = [],
       orders = [\<lparr>doc_id = ''0123456789abcdef01234567'',
                  doc_fields = [(''userId'', JStr ''u1''), (''products'', JArray []),
                                (''status'', JStr ''pending'')]\<rparr>]\<rparr>
      [Connect, Close]"
  using patch_order_without_status [of
      "\<lparr>req_userId = JStr ''aaaaaaaaaaaaaaaaaaaaaaaa'', req_isAdmin = JBool True,
       req_thisEmail = JStr ''admin@x.com'', req_param = ''0123456789abcdef01234567'',
       req_body = [(''client'', JStr ''Ana'')]\<rparr>"
      "\<lparr>users = [],
       orders = [\<lparr>doc_id = ''0123456789abcdef01234567'',
                  doc_fields = [(''userId'', JStr ''u1''), (''products'', JArray []),
                                (''status'', JStr ''pending'')]\<rparr>]\<rparr>"]
  by (simp add: patch_order_def order_empty_values_def status_rejected_def
        is_hex24_def is_hex_digit_def get_def finish_def Let_def)

text \<open>
  The claim as stated promises 400 for every such request. A caller who is not admin is
  answered with 403 by the check that stands before the status check.
\<close>

theorem patch_order_without_status_not_admin_counterexample:
  "resp (patch_order
      \<lparr>users = [],
       orders = [\<lparr>doc_id = ''0123456789abcdef01234567'',
                  doc_fields = [(''userId'', JStr ''u1''), (''products'', JArray []),
                                (''status'', JStr ''pending'')]\<rparr>]\<rparr>
      \<lparr>req_userId = JStr ''aaaaaaaaaaaaaaaaaaaaaaab'', req_isAdmin = JBool False,
       req_thisEmail = JStr ''a@x.com'', req_param = ''0123456789abcdef01234567'',
       req_body = [(''client'', JStr ''Ana'')]\<rparr>)
   = Json 403 (Error No_auth_modify)"
  by (simp add: patch_order_def order_empty_values_def get_def finish_def Let_def)

section \<open>Further properties of the user routes\<close>

lemma user_result_not_400: "resp (user_result f s t) \<noteq> Json 400 p"
  by (simp add: user_result_def finish_def split: option.splits)

lemma patch_user_update_not_400: "resp (patch_user_update s uid b) \<noteq> Json 400 p"
  by (simp add: patch_user_update_def finish_def Let_def user_result_not_400 split: option.splits)

text \<open>
  Reading a user by a path parameter without \<open>@\<close> never reaches a collection: the
  answer is the 403 of the authorization check or 404, with the store as it was.
\<close>

theorem get_user_without_at:
  assumes "CHR ''@'' \<notin> set (req_param req)"
  shows "trace (get_user s req) = [Connect, Close]
       \<and> store_after (get_user s req) = s
       \<and> (resp (get_user s req) = Json 403 (Error No_auth_request)
            \<or> resp (get_user s req) = Json 404 (Error User_not_found))"
  using assms by (simp add: get_user_def is_Number_def finish_def Let_def)

theorem get_user_without_at_witness:
  "CHR ''@'' \<notin> set ''0123456789abcdef01234567''
   \<and> resp (get_user
     \<lparr>users = [\<lparr>doc_id = ''0123456789abcdef01234567'',
                doc_fields = [(''email'', JStr ''a@x.com''), (''role'', JStr ''waiter'')]\<rparr>],
      orders = []\<rparr>
     \<lparr>req_userId = JStr ''0123456789abcdef01234567'', req_isAdmin = JBool False,
      req_thisEmail = JStr ''a@x.com'', req_param = ''0123456789abcdef01234567'',
      req_body = []\<rparr>)
     = Json 404 (Error User_not_found)"
  using get_user_without_at [of
     "\<lparr>req_userId = JStr ''0123456789abcdef01234567'', req_isAdmin = JBool False,
      req_thisEmail = JStr ''a@x.com'', req_param = ''0123456789abcdef01234567'',
      req_body = []\<rparr>"
     "\<lparr>users = [\<lparr>doc_id = ''0123456789abcdef01234567'',
                doc_fields = [(''email'', JStr ''a@x.com''), (''role'', JStr ''waiter'')]\<rparr>],
      orders = []\<rparr>"]
  by (simp add: get_user_def is_Number_def finish_def Let_def)

text \<open>
  A caller who updates the own record, with a new password and no truthy \<open>role\<close>, goes
  on to the update with the hashed password in the place of the password, whatever the
  caller's role; the answer is neither 400 nor 403.
\<close>

theorem patch_user_self_without_role:
  assumes "req_userId req = JStr (req_param req) \<or> req_thisEmail req = JStr (req_param req)"
      and "req_body req \<noteq> []"
      and "get (req_body req) ''email'' \<noteq> JStr []"
      and "get (req_body req) ''password'' = JStr pw" and "pw \<noteq> []"
      and "falsy (get (req_body req) ''role'')"
  shows "patch_user hash s req =
           patch_user_update s (req_param req)
             (AList.update ''password'' (JStr (hash pw)) (req_body req))
       \<and> resp (patch_user hash s req) \<noteq> Json 403 p
       \<and> resp (patch_user hash s req) \<noteq> Json 400 p"
proof -
  have "patch_user hash s req =
           patch_user_update s (req_param req)
             (AList.update ''password'' (JStr (hash pw)) (req_body req))"
    using assms by (auto simp: patch_user_def Let_def falsy_def)
  then show ?thesis
    by (simp add: patch_user_update_not_403 patch_user_update_not_400)
qed

theorem patch_user_self_without_role_witness:
  "patch_user (\<lambda>p. CHR ''#'' # p)
       \<lparr>users = [\<lparr>doc_id = ''0123456789abcdef01234567'',
                  doc_fields = [(''email'', JStr ''a@x.com''), (''password'', JStr ''#old''),
                                (''role'', JStr ''user'')]\<rparr>],
        orders = []\<rparr>
       \<lparr>req_userId = JStr ''u1'', req_isAdmin = JBool False,
        req_thisEmail = JStr ''a@x.com'', req_param = ''a@x.com'',
        req_body = [(''password'', JStr ''new'')]\<rparr>
   = \<lparr>resp = Json 200 (Body [(''id'', JStr ''0123456789abcdef01234567''),
                             (''email'', JStr ''a@x.com''), (''role'', JStr ''user'')]),
      store_after =
        \<lparr>users = [\<lparr>doc_id = ''0123456789abcdef01234567'',
                   doc_fields = [(''email'', JStr ''a@x.com''), (''password'', JStr ''#new''),
                                 (''role'', JStr ''user'')]\<rparr>],
         orders = []\<rparr>,
      trace = [Connect,
               FindOneAndUpdate ''users'' (ByField ''email'' (JStr ''a@x.com''))
                 [(''password'', JStr ''#new'')],
               Close]\<rparr>"
  using patch_user_self_without_role [of
       "\<lparr>req_userId = JStr ''u1'', req_isAdmin = JBool False,
        req_thisEmail = JStr ''a@x.com'', req_param = ''a@x.com'',
        req_body = [(''password'', JStr ''new'')]\<rparr>"
       "''new''" "\<lambda>p. CHR ''#'' # p"
       "\<lparr>users = [\<lparr>doc_id = ''0123456789abcdef01234567'',
                  doc_fields = [(''email'', JStr ''a@x.com''), (''password'', JStr ''#old''),
                                (''role'', JStr ''user'')]\<rparr>],
        orders = []\<rparr>"]
  by (simp add: patch_user_update_def user_result_def user_json_def finish_def
        field_matches_def get_def falsy_def Let_def)

lemma user_result_trace: "trace (user_result f s t) = t @ [Close]"
  by (simp add: user_result_def finish_def split: option.splits)

lemma is_hex_digit_not_at: "is_hex_digit c \<Longrightarrow> c \<noteq> CHR ''@''"
  by (auto simp: is_hex_digit_def)

lemma is_hex24_no_at: "is_hex24 uid \<Longrightarrow> CHR ''@'' \<notin> set uid"
  using is_hex_digit_not_at by (auto simp: is_hex24_def list_all_iff)

text \<open>
  How the target is resolved for an admin. A path parameter with \<open>@\<close> is looked up by
  email when a user is read or deleted. One of 24 hexadecimal digits is looked up by
  identifier when a user is deleted, and is not looked up at all when a user is read.
\<close>

theorem user_target_resolution:
  assumes "req_isAdmin req = JBool True"
  shows "(CHR ''@'' \<in> set (req_param req) \<longrightarrow>
            trace (get_user s req) =
              [Connect, FindOne ''users'' (ByField ''email'' (JStr (req_param req))), Close]
          \<and> trace (delete_user s req) =
              [Connect, FindOneAndDelete ''users'' (ByField ''email'' (JStr (req_param req))), Close])
       \<and> (is_hex24 (req_param req) \<longrightarrow>
            trace (get_user s req) = [Connect, Close]
          \<and> trace (delete_user s req) =
              [Connect, FindOneAndDelete ''users'' (ById (map lower_hex (req_param req))), Close])"
proof (intro conjI impI)
  assume at: "CHR ''@'' \<in> set (req_param req)"
  show "trace (get_user s req) =
          [Connect, FindOne ''users'' (ByField ''email'' (JStr (req_param req))), Close]"
    using assms at by (simp add: get_user_def finish_def Let_def split: option.splits)
  show "trace (delete_user s req) =
          [Connect, FindOneAndDelete ''users'' (ByField ''email'' (JStr (req_param req))), Close]"
    using assms at by (simp add: delete_user_def Let_def user_result_trace)
next
  assume hex: "is_hex24 (req_param req)"
  then have no_at: "CHR ''@'' \<notin> set (req_param req)"
    by (rule is_hex24_no_at)
  show "trace (get_user s req) = [Connect, Close]"
    using assms no_at by (simp add: get_user_def is_Number_def finish_def Let_def)
  show "trace (delete_user s req) =
          [Connect, FindOneAndDelete ''users'' (ById (map lower_hex (req_param req))), Close]"
    using assms no_at hex by (simp add: delete_user_def ObjectId_hex24 Let_def user_result_trace)
qed

theorem user_target_resolution_witness:
  "is_hex24 ''0123456789abcdef01234567''
   \<and> delete_user
     \<lparr>users = [\<lparr>doc_id = ''0123456789abcdef01234567'',
                doc_fields = [(''email'', JStr ''a@x.com''), (''role'', JStr ''waiter'')]\<rparr>],
      orders = []\<rparr>
     \<lparr>req_userId = JStr ''aaaaaaaaaaaaaaaaaaaaaaaa'', req_isAdmin = JBool True,
      req_thisEmail = JStr ''admin@x.com'', req_param = ''0123456789abcdef01234567'',
      req_body = []\<rparr>
   = \<lparr>resp = Json 200 (Body [(''id'', JStr ''0123456789abcdef01234567''),
                             (''email'', JStr ''a@x.com''), (''role'', JStr ''waiter'')]),
      store_after = \<lparr>users = [], orders = []\<rparr>,
      trace = [Connect, FindOneAndDelete ''users'' (ById ''0123456789abcdef01234567''), Close]\<rparr>"
proof -
  have hex: "is_hex24 ''0123456789abcdef01234567''"
    by (simp add: is_hex24_def is_hex_digit_def)
  have low: "map lower_hex ''0123456789abcdef01234567'' = ''0123456789abcdef01234567''"
    by (simp add: lower_hex_def)
  have tr: "trace (delete_user
     \<lparr>users = [\<lparr>doc_id = ''0123456789abcdef01234567'',
                doc_fields = [(''email'', JStr ''a@x.com''), (''role'', JStr ''waiter'')]\<rparr>],
      orders = []\<rparr>
     \<lparr>req_userId = JStr ''aaaaaaaaaaaaaaaaaaaaaaaa'', req_isAdmin = JBool True,
      req_thisEmail = JStr ''admin@x.com'', req_param = ''0123456789abcdef01234567'',
      req_body = []\<rparr>)
    = [Connect, FindOneAndDelete ''users'' (ById ''0123456789abcdef01234567''), Close]"
    using user_target_resolution [of
     "\<lparr>req_userId = JStr ''aaaaaaaaaaaaaaaaaaaaaaaa'', req_isAdmin = JBool True,
      req_thisEmail = JStr ''admin@x.com'', req_param = ''0123456789abcdef01234567'',
      req_body = []\<rparr>"
     "\<lparr>users = [\<lparr>doc_id = ''0123456789abcdef01234567'',
                doc_fields = [(''email'', JStr ''a@x.com''), (''role'', JStr ''waiter'')]\<rparr>],
      orders = []\<rparr>"] hex low
    by simp
  have oid: "ObjectId ''0123456789abcdef01234567'' = Some ''0123456789abcdef01234567''"
    using ObjectId_hex24 [OF hex] by (simp only: low)
  show ?thesis
    using hex tr
    by (simp add: delete_user_def user_result_def user_json_def oid finish_def get_def Let_def)
qed

end
